theory Spec2Isabelle
  imports
    Main
    "HOL-Library.Dlist"
    "HOL-Library.AList"
    "HOL-Library.Sublist"
    "HOL-Library.Char_ord"
    "HOL-Library.List_Lexorder"
begin

section \<open>Values of the program\<close>

text \<open>
  The agent of \<^verbatim>\<open>src/main.py\<close> handles values that come out of \<^verbatim>\<open>json.loads\<close>:
  dictionaries with string keys, lists, strings, integers, booleans and \<^verbatim>\<open>None\<close>.
  A dictionary is an association list in insertion order, read with \<open>map_of\<close> and
  written with \<open>AList.update\<close>, which keeps the position of a key that is already there,
  as a Python dictionary does. Floating-point numbers are outside the embedding.
  A string is a list of code points below 256.
\<close>

datatype json =
    JNull
  | JBool bool
  | JInt int
  | JString string
  | JArray "json list"
  | JObject "(string \<times> json) list"

text \<open>The exceptions that the code can raise on such values.\<close>

datatype exn =
    KeyError string
  | TypeError
  | AttributeError
  | ValueError
  | TransportError

text \<open>
  The elements a Python \<^verbatim>\<open>set\<close> can hold among these values. Python identifies
  \<^verbatim>\<open>True\<close> with \<^verbatim>\<open>1\<close> and \<^verbatim>\<open>False\<close> with \<^verbatim>\<open>0\<close> inside a set, hence a boolean is kept as
  its integer. Lists and dictionaries are unhashable.
\<close>

datatype pykey = KStr string | KInt int | KNone

fun hashable :: "json \<Rightarrow> exn + pykey" where
  "hashable (JString s) = Inr (KStr s)"
| "hashable (JInt n) = Inr (KInt n)"
| "hashable (JBool b) = Inr (KInt (if b then 1 else 0))"
| "hashable JNull = Inr KNone"
| "hashable (JArray xs) = Inl TypeError"
| "hashable (JObject kvs) = Inl TypeError"

fun dump_key :: "pykey \<Rightarrow> json" where
  "dump_key (KStr s) = JString s"
| "dump_key (KInt n) = JInt n"
| "dump_key KNone = JNull"

text \<open>
  A Python set is a duplicate-free list (\<open>'a dlist\<close>): \<^verbatim>\<open>add\<close> is \<open>Dlist.insert\<close>,
  \<^verbatim>\<open>discard\<close> is \<open>Dlist.remove\<close>, \<^verbatim>\<open>set(xs)\<close> is \<open>Dlist xs\<close> and \<^verbatim>\<open>list(s)\<close> is
  \<open>list_of_dlist s\<close>. The order of the list stands for the iteration order, which
  Python leaves open; \<open>elems\<close> forgets it.
\<close>

definition elems :: "'a dlist \<Rightarrow> 'a set" where
  "elems d = set (list_of_dlist d)"

definition set_update :: "'a list \<Rightarrow> 'a dlist \<Rightarrow> 'a dlist" where
  "set_update xs d = fold Dlist.insert xs d"

text \<open>Iterating over a value: a list gives its elements, a string its characters,
  a dictionary its keys; anything else is not iterable.\<close>

fun py_iter :: "json \<Rightarrow> exn + json list" where
  "py_iter (JArray xs) = Inr xs"
| "py_iter (JString s) = Inr (map (\<lambda>c. JString [c]) s)"
| "py_iter (JObject kvs) = Inr (map (\<lambda>kv. JString (fst kv)) kvs)"
| "py_iter JNull = Inl TypeError"
| "py_iter (JBool b) = Inl TypeError"
| "py_iter (JInt n) = Inl TypeError"

text \<open>Running a fallible function over a list, stopping at the first exception.\<close>

fun traverse :: "('a \<Rightarrow> exn + 'b) \<Rightarrow> 'a list \<Rightarrow> exn + 'b list" where
  "traverse f [] = Inr []"
| "traverse f (x # xs) =
     (case f x of
        Inl e \<Rightarrow> Inl e
      | Inr y \<Rightarrow> (case traverse f xs of Inl e \<Rightarrow> Inl e | Inr ys \<Rightarrow> Inr (y # ys)))"

text \<open>\<^verbatim>\<open>set(x)\<close> for a value \<open>x\<close>.\<close>

definition py_set :: "json \<Rightarrow> exn + pykey dlist" where
  "py_set j =
     (case py_iter j of
        Inl e \<Rightarrow> Inl e
      | Inr xs \<Rightarrow> (case traverse hashable xs of Inl e \<Rightarrow> Inl e | Inr ks \<Rightarrow> Inr (Dlist ks)))"

text \<open>\<^verbatim>\<open>d.get(k, default)\<close>: only a dictionary has the method.\<close>

fun py_get :: "json \<Rightarrow> string \<Rightarrow> json \<Rightarrow> exn + json" where
  "py_get (JObject kvs) k dflt = Inr (case map_of kvs k of None \<Rightarrow> dflt | Some v \<Rightarrow> v)"
| "py_get j k dflt = Inl AttributeError"

text \<open>\<^verbatim>\<open>d[k]\<close> with a string \<open>k\<close>: a missing key raises KeyError, a value that is not a
  dictionary raises TypeError.\<close>

fun py_getitem :: "json \<Rightarrow> string \<Rightarrow> exn + json" where
  "py_getitem (JObject kvs) k = (case map_of kvs k of None \<Rightarrow> Inl (KeyError k) | Some v \<Rightarrow> Inr v)"
| "py_getitem j k = Inl TypeError"

text \<open>\<^verbatim>\<open>d[k] = v\<close> with a string \<open>k\<close>.\<close>

fun py_setitem :: "json \<Rightarrow> string \<Rightarrow> json \<Rightarrow> exn + json" where
  "py_setitem (JObject kvs) k v = Inr (JObject (AList.update k v kvs))"
| "py_setitem j k v = Inl TypeError"

subsection \<open>Strings\<close>

text \<open>\<^verbatim>\<open>str.isspace\<close> on one code point below 256, and \<^verbatim>\<open>str.strip()\<close>.\<close>

definition isspace :: "char \<Rightarrow> bool" where
  "isspace c =
     (let n = (of_char c :: nat)
      in (9 \<le> n \<and> n \<le> 13) \<or> (28 \<le> n \<and> n \<le> 32) \<or> n = 133 \<or> n = 160)"

definition strip :: "string \<Rightarrow> string" where
  "strip s = rev (dropWhile isspace (rev (dropWhile isspace s)))"

text \<open>The capital letters are the code points 65 to 90 and 192 to 222 without 215;
  the small letter is 32 further, which sets the one bit of value 32.\<close>

definition lower_char :: "char \<Rightarrow> char" where
  "lower_char c =
     (let n = (of_char c :: nat)
      in if (65 \<le> n \<and> n \<le> 90) \<or> (192 \<le> n \<and> n \<le> 222 \<and> n \<noteq> 215)
         then (case c of Char b0 b1 b2 b3 b4 b5 b6 b7 \<Rightarrow> Char b0 b1 b2 b3 b4 True b6 b7)
         else c)"

definition lower :: "string \<Rightarrow> string" where
  "lower s = map lower_char s"

text \<open>\<^verbatim>\<open>s.replace(old, new)\<close>: the occurrences of \<open>old\<close> are replaced from left to
  right, without overlap.\<close>

function replace :: "string \<Rightarrow> string \<Rightarrow> string \<Rightarrow> string" where
  "replace old new s =
     (if old = [] then (case s of [] \<Rightarrow> new | c # cs \<Rightarrow> new @ c # replace old new cs)
      else if prefix old s then new @ replace old new (drop (length old) s)
      else (case s of [] \<Rightarrow> [] | c # cs \<Rightarrow> c # replace old new cs))"
  by pat_completeness auto
termination
  by (relation "measure (\<lambda>(old, new, s). length s)") (auto simp: prefix_def)

declare replace.simps [simp del]

section \<open>The agent and its files\<close>

text \<open>
  The memory file is read only through \<^verbatim>\<open>json.load\<close> and written only through
  \<^verbatim>\<open>json.dump\<close>, so its content is kept as what \<^verbatim>\<open>json.load\<close> makes of it: the file does
  not exist, it does not parse (JSONDecodeError), or it holds a value. What
  \<^verbatim>\<open>json.dump\<close> writes is read back as the same value.
\<close>

datatype stored = Missing | Unparseable | Holds json

text \<open>A calendar event: its name, its start (day number and seconds after midnight)
  and its duration in seconds.\<close>

record event =
  name :: string
  begin_day :: int
  begin_sec :: nat
  duration :: nat

text \<open>
  The fields of \<^verbatim>\<open>SousChefAgent\<close>, with the two files it touches. \<open>conversation\<close> is
  the chat session: the replies the model will give to the coming calls of
  \<^verbatim>\<open>send_message\<close>, \<open>None\<close> for a call that raises. \<open>memory_file\<close> is the content of the
  file at the agent's path, \<open>calendar_file\<close> what was written at the path of the
  user's calendar, if anything.
\<close>

record state =
  user_id :: string
  pantry :: "pykey dlist"
  liked_recipes :: "pykey dlist"
  disliked_recipes :: "pykey dlist"
  conversation :: "string option list"
  memory_file :: stored
  calendar_file :: "(string \<times> event list) option"

subsection \<open>Loading and saving the memory\<close>

text \<open>\<^verbatim>\<open>_load_memory\<close>: only JSONDecodeError is caught; the three fields are assigned
  one after the other.\<close>

definition load_memory :: "state \<Rightarrow> (exn + unit) \<times> state" where
  "load_memory s =
     (case memory_file s of
        Missing \<Rightarrow> (Inr (), s)
      | Unparseable \<Rightarrow> (Inr (), s)
      | Holds full_memory_bank \<Rightarrow>
          (case py_get full_memory_bank (user_id s) (JObject []) of
             Inl e \<Rightarrow> (Inl e, s)
           | Inr user_data \<Rightarrow>
               (case py_get user_data ''pantry'' (JArray []) of
                  Inl e \<Rightarrow> (Inl e, s)
                | Inr p \<Rightarrow>
                    (case py_set p of
                       Inl e \<Rightarrow> (Inl e, s)
                     | Inr ps \<Rightarrow>
                         (let s1 = s\<lparr>pantry := ps\<rparr> in
                          case py_get user_data ''liked_recipes'' (JArray []) of
                            Inl e \<Rightarrow> (Inl e, s1)
                          | Inr l \<Rightarrow>
                              (case py_set l of
                                 Inl e \<Rightarrow> (Inl e, s1)
                               | Inr ls \<Rightarrow>
                                   (let s2 = s1\<lparr>liked_recipes := ls\<rparr> in
                                    case py_get user_data ''disliked_recipes'' (JArray []) of
                                      Inl e \<Rightarrow> (Inl e, s2)
                                    | Inr d \<Rightarrow>
                                        (case py_set d of
                                           Inl e \<Rightarrow> (Inl e, s2)
                                         | Inr ds \<Rightarrow>
                                             (Inr (), s2\<lparr>disliked_recipes := ds\<rparr>)))))))))"

text \<open>The dictionary that \<^verbatim>\<open>_save_memory\<close> stores under the user's id.\<close>

definition user_record :: "state \<Rightarrow> json" where
  "user_record s =
     JObject
       [(''pantry'', JArray (map dump_key (list_of_dlist (pantry s)))),
        (''liked_recipes'', JArray (map dump_key (list_of_dlist (liked_recipes s)))),
        (''disliked_recipes'', JArray (map dump_key (list_of_dlist (disliked_recipes s))))]"

text \<open>What \<^verbatim>\<open>_save_memory\<close> starts from: the empty dictionary, replaced by the content
  of the file when the file exists and parses.\<close>

definition read_bank :: "stored \<Rightarrow> json" where
  "read_bank f = (case f of Missing \<Rightarrow> JObject [] | Unparseable \<Rightarrow> JObject [] | Holds j \<Rightarrow> j)"

text \<open>\<^verbatim>\<open>_save_memory\<close>: the file is read again, the user's entry is assigned in what
  was read, and the result is written. The assignment raises when the file holds a
  value that is not a dictionary, before the file is opened for writing.\<close>

definition save_memory :: "state \<Rightarrow> (exn + unit) \<times> state" where
  "save_memory s =
     (case py_setitem (read_bank (memory_file s)) (user_id s) (user_record s) of
        Inl e \<Rightarrow> (Inl e, s)
      | Inr full_memory_bank \<Rightarrow> (Inr (), s\<lparr>memory_file := Holds full_memory_bank\<rparr>))"

text \<open>The record that the memory file keeps for a user, if any.\<close>

definition stored_record :: "stored \<Rightarrow> string \<Rightarrow> json option" where
  "stored_record f u = (case f of Holds (JObject kvs) \<Rightarrow> map_of kvs u | _ \<Rightarrow> None)"

text \<open>\<^verbatim>\<open>__init__\<close>, as far as the memory goes: the credential is checked, the three
  sets start empty and the memory is loaded. An exception leaves no agent.\<close>

definition init :: "string option \<Rightarrow> string \<Rightarrow> string option list \<Rightarrow> stored \<Rightarrow>
    (string \<times> event list) option \<Rightarrow> exn + state" where
  "init api_key uid replies mem cal =
     (case api_key of
        None \<Rightarrow> Inl ValueError
      | Some k \<Rightarrow>
          if k = [] then Inl ValueError
          else
            (case load_memory
                    \<lparr>user_id = uid, pantry = Dlist.empty, liked_recipes = Dlist.empty,
                     disliked_recipes = Dlist.empty, conversation = replies,
                     memory_file = mem, calendar_file = cal\<rparr> of
               (Inl e, s) \<Rightarrow> Inl e
             | (Inr u, s) \<Rightarrow> Inr s))"

subsection \<open>The pantry and the feedback\<close>

text \<open>The normal form of a name: \<^verbatim>\<open>item.strip().lower()\<close>, which only a string has.\<close>

definition normal_form :: "string \<Rightarrow> string" where
  "normal_form s = lower (strip s)"

fun strip_lower :: "json \<Rightarrow> exn + string" where
  "strip_lower (JString s) = Inr (normal_form s)"
| "strip_lower j = Inl AttributeError"

text \<open>\<^verbatim>\<open>add_to_pantry\<close>: the list comprehension is evaluated before the set changes.\<close>

definition add_to_pantry :: "json \<Rightarrow> state \<Rightarrow> (exn + unit) \<times> state" where
  "add_to_pantry ingredients s =
     (case py_iter ingredients of
        Inl e \<Rightarrow> (Inl e, s)
      | Inr items \<Rightarrow>
          (case traverse strip_lower items of
             Inl e \<Rightarrow> (Inl e, s)
           | Inr names \<Rightarrow> save_memory (s\<lparr>pantry := set_update (map KStr names) (pantry s)\<rparr>)))"

text \<open>\<^verbatim>\<open>remove_from_pantry\<close>: the loop discards as it goes, so an exception at one item
  leaves the earlier ones removed and nothing saved.\<close>

fun discard_all :: "json list \<Rightarrow> pykey dlist \<Rightarrow> (exn + unit) \<times> pykey dlist" where
  "discard_all [] d = (Inr (), d)"
| "discard_all (item # items) d =
     (case strip_lower item of
        Inl e \<Rightarrow> (Inl e, d)
      | Inr n \<Rightarrow> discard_all items (Dlist.remove (KStr n) d))"

definition remove_from_pantry :: "json \<Rightarrow> state \<Rightarrow> (exn + unit) \<times> state" where
  "remove_from_pantry ingredients s =
     (case py_iter ingredients of
        Inl e \<Rightarrow> (Inl e, s)
      | Inr items \<Rightarrow>
          (case discard_all items (pantry s) of
             (Inl e, d) \<Rightarrow> (Inl e, s\<lparr>pantry := d\<rparr>)
           | (Inr u, d) \<Rightarrow> save_memory (s\<lparr>pantry := d\<rparr>)))"

text \<open>\<^verbatim>\<open>feedback.lower()\<close> on a value.\<close>

fun py_lower :: "json \<Rightarrow> exn + string" where
  "py_lower (JString s) = Inr (lower s)"
| "py_lower j = Inl AttributeError"

text \<open>\<^verbatim>\<open>add_feedback\<close>: a feedback that is neither \<^verbatim>\<open>like\<close> nor \<^verbatim>\<open>dislike\<close> changes no
  set, and the memory is saved all the same.\<close>

definition add_feedback :: "json \<Rightarrow> json \<Rightarrow> state \<Rightarrow> (exn + unit) \<times> state" where
  "add_feedback recipe_name feedback s =
     (case strip_lower recipe_name of
        Inl e \<Rightarrow> (Inl e, s)
      | Inr r \<Rightarrow>
          (case py_lower feedback of
             Inl e \<Rightarrow> (Inl e, s)
           | Inr f \<Rightarrow>
               if f = ''like'' then
                 save_memory
                   (s\<lparr>liked_recipes := Dlist.insert (KStr r) (liked_recipes s),
                      disliked_recipes := Dlist.remove (KStr r) (disliked_recipes s)\<rparr>)
               else if f = ''dislike'' then
                 save_memory
                   (s\<lparr>disliked_recipes := Dlist.insert (KStr r) (disliked_recipes s),
                      liked_recipes := Dlist.remove (KStr r) (liked_recipes s)\<rparr>)
               else save_memory s))"

text \<open>A sequence of calls of \<^verbatim>\<open>add_feedback\<close>, each with its recipe name and its
  feedback; a call that raises does not stop the session.\<close>

fun add_feedbacks :: "(json \<times> json) list \<Rightarrow> state \<Rightarrow> state" where
  "add_feedbacks [] s = s"
| "add_feedbacks (c # cs) s = add_feedbacks cs (snd (add_feedback (fst c) (snd c) s))"

subsection \<open>What the code takes from its libraries\<close>

text \<open>
  The library calls whose results the code passes on without looking inside:
  \<^verbatim>\<open>json.loads\<close> on a text (\<open>None\<close> is JSONDecodeError), \<^verbatim>\<open>str()\<close> of a value that is
  not a string, \<^verbatim>\<open>str()\<close> of an exception, \<^verbatim>\<open>datetime.strptime\<close> with the format
  \<^verbatim>\<open>%Y-%m-%d\<close> (the day number of the date, \<open>None\<close> is ValueError), \<^verbatim>\<open>int()\<close> of a
  string (\<open>None\<close> is ValueError), the date of \<^verbatim>\<open>datetime.now()\<close> as a day number,
  \<^verbatim>\<open>tempfile.gettempdir()\<close> and \<^verbatim>\<open>os.path.join\<close>. Day numbers are unbounded.
\<close>

record env =
  loads :: "string \<Rightarrow> json option"
  repr :: "json \<Rightarrow> string"
  exn_str :: "exn \<Rightarrow> string"
  strptime :: "string \<Rightarrow> int option"
  int_of_str :: "string \<Rightarrow> int option"
  today :: int
  tempdir :: string
  path_join :: "string \<Rightarrow> string \<Rightarrow> string"

text \<open>A value inside an f-string.\<close>

definition py_str :: "env \<Rightarrow> json \<Rightarrow> string" where
  "py_str E j = (case j of JString s \<Rightarrow> s | _ \<Rightarrow> repr E j)"

text \<open>\<^verbatim>\<open>int(x)\<close>.\<close>

fun py_int :: "env \<Rightarrow> json \<Rightarrow> exn + int" where
  "py_int E (JInt n) = Inr n"
| "py_int E (JBool b) = Inr (if b then 1 else 0)"
| "py_int E (JString s) = (case int_of_str E s of None \<Rightarrow> Inl ValueError | Some n \<Rightarrow> Inr n)"
| "py_int E j = Inl TypeError"

text \<open>\<^verbatim>\<open>k in x\<close> for a string \<open>k\<close>: a key of a dictionary, an element of a list, a
  substring of a string.\<close>

fun py_in :: "string \<Rightarrow> json \<Rightarrow> exn + bool" where
  "py_in k (JObject kvs) = Inr (map_of kvs k \<noteq> None)"
| "py_in k (JArray xs) = Inr (JString k \<in> set xs)"
| "py_in k (JString t) = Inr (sublist k t)"
| "py_in k j = Inl TypeError"

subsection \<open>Viewing the pantry\<close>

fun key_str :: "pykey \<Rightarrow> string option" where
  "key_str (KStr s) = Some s"
| "key_str k = None"

fun key_int :: "pykey \<Rightarrow> int option" where
  "key_int (KInt n) = Some n"
| "key_int k = None"

text \<open>\<^verbatim>\<open>sorted(xs)\<close>: strings compare with strings, integers with integers; any
  other comparison raises TypeError, and two elements or more are always compared.\<close>

definition py_sorted :: "pykey list \<Rightarrow> exn + pykey list" where
  "py_sorted ks =
     (if length ks \<le> 1 then Inr ks
      else case those (map key_str ks) of
             Some ss \<Rightarrow> Inr (map KStr (sort ss))
           | None \<Rightarrow>
               (case those (map key_int ks) of
                  Some ns \<Rightarrow> Inr (map KInt (sort ns))
                | None \<Rightarrow> Inl TypeError))"

definition view_pantry :: "state \<Rightarrow> exn + json" where
  "view_pantry s =
     (if Dlist.null (pantry s) then Inr (JObject [(''pantry'', JArray [])])
      else case py_sorted (list_of_dlist (pantry s)) of
             Inl e \<Rightarrow> Inl e
           | Inr ks \<Rightarrow> Inr (JObject [(''pantry'', JArray (map dump_key ks))]))"

subsection \<open>The calendar file\<close>

text \<open>
  The date of a meal. \<^verbatim>\<open>meal.get('day_str', str(datetime.now().date()))\<close> is parsed:
  without the key \<^verbatim>\<open>day_str\<close> the text parsed is today's date, which \<^verbatim>\<open>strptime\<close> reads
  back as today. Only when the parse raises ValueError or TypeError (the key is
  there, with a text that is no date or a value that is no string) is the date
  taken from \<^verbatim>\<open>day\<close>.
\<close>

definition day_fallback :: "env \<Rightarrow> json \<Rightarrow> exn + int" where
  "day_fallback E meal =
     (case py_get meal ''day'' (JInt 1) of
        Inl e \<Rightarrow> Inl e
      | Inr d \<Rightarrow> (case py_int E d of Inl e \<Rightarrow> Inl e | Inr n \<Rightarrow> Inr (today E + (n - 1))))"

definition meal_date :: "env \<Rightarrow> json \<Rightarrow> exn + int" where
  "meal_date E meal =
     (case meal of
        JObject kvs \<Rightarrow>
          (case map_of kvs ''day_str'' of
             None \<Rightarrow> Inr (today E)
           | Some (JString d) \<Rightarrow>
               (case strptime E d of Some day \<Rightarrow> Inr day | None \<Rightarrow> day_fallback E meal)
           | Some other \<Rightarrow> day_fallback E meal)
      | _ \<Rightarrow> Inl AttributeError)"

text \<open>\<^verbatim>\<open>datetime.combine(meal_date, datetime.min.time()) + timedelta(hours=h)\<close>.\<close>

definition at_hour :: "int \<Rightarrow> nat \<Rightarrow> int \<times> nat" where
  "at_hour d h = (d + int ((h * 3600) div 86400), (h * 3600) mod 86400)"

text \<open>The body of the loop of \<^verbatim>\<open>create_calendar_file\<close>: the event of one meal.\<close>

definition meal_event :: "env \<Rightarrow> json \<Rightarrow> exn + event" where
  "meal_event E meal =
     (case py_getitem meal ''meal_type'' of
        Inl e \<Rightarrow> Inl e
      | Inr t \<Rightarrow>
          (case py_getitem meal ''meal_name'' of
             Inl e \<Rightarrow> Inl e
           | Inr n \<Rightarrow>
               (case meal_date E meal of
                  Inl e \<Rightarrow> Inl e
                | Inr d \<Rightarrow>
                    (case py_lower t of
                       Inl e \<Rightarrow> Inl e
                     | Inr lt \<Rightarrow>
                         (let event_time =
                                (if lt = ''breakfast'' then at_hour d 8
                                 else if lt = ''lunch'' then at_hour d 13
                                 else at_hour d 19)
                          in Inr \<lparr>name = py_str E t @ '': '' @ py_str E n,
                                  begin_day = fst event_time,
                                  begin_sec = snd event_time,
                                  duration = 3600\<rparr>)))))"

definition status_result :: "string \<Rightarrow> string \<Rightarrow> json" where
  "status_result st msg = JObject [(''status'', JString st), (''message'', JString msg)]"

text \<open>\<^verbatim>\<open>create_calendar_file\<close>: every exception of the body becomes an error result.
  Failures of the file system are not modelled.\<close>

definition create_calendar_file :: "env \<Rightarrow> json \<Rightarrow> state \<Rightarrow> json \<times> state" where
  "create_calendar_file E meal_plan s =
     (case (case py_iter meal_plan of Inl e \<Rightarrow> Inl e | Inr meals \<Rightarrow> traverse (meal_event E) meals) of
        Inl e \<Rightarrow> (status_result ''error'' (''Failed to create calendar file: '' @ exn_str E e), s)
      | Inr events \<Rightarrow>
          (let file_path =
                 path_join E (path_join E (tempdir E) ''sous_chef_calendars'')
                   (user_id s @ ''_meal_plan.ics'')
           in (JObject [(''status'', JString ''success''),
                        (''message'', JString ''Calendar file created successfully.''),
                        (''file_path'', JString file_path)],
               s\<lparr>calendar_file := Some (file_path, events)\<rparr>)))"

subsection \<open>Asking the model and calling tools\<close>

text \<open>
  \<^verbatim>\<open>re.search(r'\{.*\}', raw_text, re.DOTALL)\<close>: the search tries each start from the
  left; at an opening brace, the greedy \<^verbatim>\<open>.*\<close> takes everything and gives back until a
  closing brace follows.
\<close>

fun greedy_close :: "string \<Rightarrow> string option" where
  "greedy_close [] = None"
| "greedy_close (c # cs) =
     (case greedy_close cs of
        Some m \<Rightarrow> Some (c # m)
      | None \<Rightarrow> if c = CHR ''}'' then Some [c] else None)"

fun re_search :: "string \<Rightarrow> string option" where
  "re_search [] = None"
| "re_search (c # cs) =
     (if c = CHR ''{'' then
        (case greedy_close cs of Some m \<Rightarrow> Some (c # m) | None \<Rightarrow> re_search cs)
      else re_search cs)"

text \<open>The plain-text answer of \<^verbatim>\<open>ask\<close>.\<close>

definition cleaned_text :: "string \<Rightarrow> string" where
  "cleaned_text raw_text = replace ''```'' [] (replace ''```json'' [] (strip raw_text))"

definition conversational :: "string \<Rightarrow> json" where
  "conversational raw_text = JObject [(''response'', JString (cleaned_text raw_text))]"

text \<open>The result of the handler \<^verbatim>\<open>except Exception\<close> of \<^verbatim>\<open>ask\<close>; \<open>raw\<close> is the text of the
  response when there is one.\<close>

definition error_result :: "env \<Rightarrow> exn \<Rightarrow> string option \<Rightarrow> json" where
  "error_result E e raw =
     JObject
       [(''error'', JString (''Failed to get response from model: '' @ exn_str E e)),
        (''raw_response'',
           JString (case raw of Some r \<Rightarrow> r | None \<Rightarrow> ''No response from model.''))]"

text \<open>\<^verbatim>\<open>"tool_code" in json_response and "tool_params" in json_response\<close>.\<close>

definition is_tool_call :: "json \<Rightarrow> exn + bool" where
  "is_tool_call json_response =
     (case py_in ''tool_code'' json_response of
        Inl e \<Rightarrow> Inl e
      | Inr b \<Rightarrow> if b then py_in ''tool_params'' json_response else Inr False)"

text \<open>Calling a method with \<^verbatim>\<open>**tool_params\<close>: the value must be a dictionary whose
  keys are among the parameters of the method.\<close>

fun kwargs :: "string list \<Rightarrow> json \<Rightarrow> exn + unit" where
  "kwargs allowed (JObject kvs) =
     (if list_all (\<lambda>kv. fst kv \<in> set allowed) kvs then Inr () else Inl TypeError)"
| "kwargs allowed j = Inl TypeError"

text \<open>\<^verbatim>\<open>", ".join(xs)\<close> raises TypeError on an element that is not a string.\<close>

definition joinable :: "pykey dlist \<Rightarrow> exn + unit" where
  "joinable d = (if list_all (\<lambda>k. key_str k \<noteq> None) (list_of_dlist d) then Inr () else Inl TypeError)"

text \<open>
  \<^verbatim>\<open>ask\<close>, \<^verbatim>\<open>_call_tool\<close>, \<^verbatim>\<open>generate_meal_plan\<close> and \<^verbatim>\<open>generate_recipe\<close> call each other.
  Each call of \<^verbatim>\<open>ask\<close> takes the next reply of the conversation; when none is left
  the call of \<^verbatim>\<open>send_message\<close> counts as raising. The prompts are built with
  f-strings, which do not fail, and do not change what the scripted model replies.
\<close>

function ask :: "env \<Rightarrow> state \<Rightarrow> json \<times> state"
  and call_tool :: "env \<Rightarrow> json \<Rightarrow> json \<Rightarrow> state \<Rightarrow> (exn + json) \<times> state"
  and generate_meal_plan :: "env \<Rightarrow> json \<Rightarrow> state \<Rightarrow> (exn + json) \<times> state"
  and generate_recipe :: "env \<Rightarrow> json \<Rightarrow> state \<Rightarrow> (exn + json) \<times> state"
where
  "ask E s =
     (case conversation s of
        [] \<Rightarrow> (error_result E TransportError None, s)
      | None # rest \<Rightarrow> (error_result E TransportError None, s\<lparr>conversation := rest\<rparr>)
      | Some raw_text # rest \<Rightarrow>
          (case re_search raw_text of
             None \<Rightarrow> (conversational raw_text, s\<lparr>conversation := rest\<rparr>)
           | Some json_string \<Rightarrow>
               (case loads E json_string of
                  None \<Rightarrow> (conversational raw_text, s\<lparr>conversation := rest\<rparr>)
                | Some json_response \<Rightarrow>
                    (case is_tool_call json_response of
                       Inl e \<Rightarrow> (error_result E e (Some raw_text), s\<lparr>conversation := rest\<rparr>)
                     | Inr False \<Rightarrow> (json_response, s\<lparr>conversation := rest\<rparr>)
                     | Inr True \<Rightarrow>
                         (case py_getitem json_response ''tool_code'' of
                            Inl e \<Rightarrow> (error_result E e (Some raw_text), s\<lparr>conversation := rest\<rparr>)
                          | Inr tool_code \<Rightarrow>
                              (case py_getitem json_response ''tool_params'' of
                                 Inl e \<Rightarrow>
                                   (error_result E e (Some raw_text), s\<lparr>conversation := rest\<rparr>)
                               | Inr tool_params \<Rightarrow>
                                   (case call_tool E tool_code tool_params
                                           (s\<lparr>conversation := rest\<rparr>) of
                                      (Inl e, s') \<Rightarrow> (error_result E e (Some raw_text), s')
                                    | (Inr r, s') \<Rightarrow> (r, s'))))))))"
| "call_tool E tool_code tool_params s =
     (if tool_code = JString ''add_to_pantry'' then
        (case py_getitem tool_params ''ingredients'' of
           Inl e \<Rightarrow> (Inl e, s)
         | Inr ingredients \<Rightarrow>
             (case add_to_pantry ingredients s of
                (Inl e, s') \<Rightarrow> (Inl e, s')
              | (Inr u, s') \<Rightarrow>
                  (Inr (status_result ''success''
                          (''Added '' @ py_str E ingredients @ '' to pantry.'')), s')))
      else if tool_code = JString ''remove_from_pantry'' then
        (case py_getitem tool_params ''ingredients'' of
           Inl e \<Rightarrow> (Inl e, s)
         | Inr ingredients \<Rightarrow>
             (case remove_from_pantry ingredients s of
                (Inl e, s') \<Rightarrow> (Inl e, s')
              | (Inr u, s') \<Rightarrow>
                  (Inr (status_result ''success''
                          (''Removed '' @ py_str E ingredients @ '' from pantry.'')), s')))
      else if tool_code = JString ''add_feedback'' then
        (case py_getitem tool_params ''recipe_name'' of
           Inl e \<Rightarrow> (Inl e, s)
         | Inr recipe_name \<Rightarrow>
             (case py_getitem tool_params ''feedback'' of
                Inl e \<Rightarrow> (Inl e, s)
              | Inr feedback \<Rightarrow>
                  (case add_feedback recipe_name feedback s of
                     (Inl e, s') \<Rightarrow> (Inl e, s')
                   | (Inr u, s') \<Rightarrow>
                       (Inr (status_result ''success''
                               (''Feedback for '' @ [CHR 0x27] @ py_str E recipe_name
                                  @ [CHR 0x27] @ '' received.'')), s'))))
      else if tool_code = JString ''view_pantry'' then (view_pantry s, s)
      else if tool_code = JString ''generate_meal_plan'' then generate_meal_plan E tool_params s
      else if tool_code = JString ''generate_recipe'' then generate_recipe E tool_params s
      else if tool_code = JString ''create_calendar_file'' then
        (case py_getitem tool_params ''meal_plan'' of
           Inl e \<Rightarrow> (Inl e, s)
         | Inr meal_plan \<Rightarrow>
             (case create_calendar_file E meal_plan s of (r, s') \<Rightarrow> (Inr r, s')))
      else (Inr (status_result ''error'' (''Unknown tool: '' @ py_str E tool_code)), s))"
| "generate_meal_plan E tool_params s =
     (case kwargs [''days'', ''diet'', ''preferences''] tool_params of
        Inl e \<Rightarrow> (Inl e, s)
      | Inr u \<Rightarrow> (case ask E s of (r, s') \<Rightarrow> (Inr r, s')))"
| "generate_recipe E tool_params s =
     (case kwargs [''extra_ingredients'', ''dietary_needs'', ''cooking_time''] tool_params of
        Inl e \<Rightarrow> (Inl e, s)
      | Inr u \<Rightarrow>
          (case joinable (pantry s) of
             Inl e \<Rightarrow> (Inl e, s)
           | Inr u \<Rightarrow>
               (case joinable (liked_recipes s) of
                  Inl e \<Rightarrow> (Inl e, s)
                | Inr u \<Rightarrow>
                    (case joinable (disliked_recipes s) of
                       Inl e \<Rightarrow> (Inl e, s)
                     | Inr u \<Rightarrow> (case ask E s of (r, s') \<Rightarrow> (Inr r, s'))))))"
  by pat_completeness auto
termination
  by (relation "measure (\<lambda>x. case x of
          Inl (Inl (E, s)) \<Rightarrow> 3 * length (conversation s)
        | Inl (Inr (E, c, p, s)) \<Rightarrow> 3 * length (conversation s) + 2
        | Inr (Inl (E, p, s)) \<Rightarrow> 3 * length (conversation s) + 1
        | Inr (Inr (E, p, s)) \<Rightarrow> 3 * length (conversation s) + 1)") auto

declare ask.simps [simp del] call_tool.simps [simp del]
  generate_meal_plan.simps [simp del] generate_recipe.simps [simp del]

subsection \<open>The words of the specification\<close>

text \<open>The span from the first opening brace to the last closing brace of a text,
  when the text has a closing brace after its first opening brace.\<close>

definition brace_span :: "string \<Rightarrow> string option" where
  "brace_span t =
     (let from_open = dropWhile (\<lambda>c. c \<noteq> CHR ''{'') t;
          span = rev (dropWhile (\<lambda>c. c \<noteq> CHR ''}'') (rev from_open))
      in if span = [] then None else Some span)"

text \<open>The fixed set of tools and the parameters each requires, as the table
  \<^verbatim>\<open>self.tools\<close> of \<^verbatim>\<open>__init__\<close> lists them.\<close>

definition tools :: "string list" where
  "tools =
     [''add_to_pantry'', ''remove_from_pantry'', ''add_feedback'', ''view_pantry'',
      ''generate_meal_plan'', ''generate_recipe'', ''create_calendar_file'']"

definition required :: "string \<Rightarrow> string list" where
  "required tool =
     (if tool = ''add_to_pantry'' then [''ingredients'']
      else if tool = ''remove_from_pantry'' then [''ingredients'']
      else if tool = ''add_feedback'' then [''recipe_name'', ''feedback'']
      else if tool = ''create_calendar_file'' then [''meal_plan'']
      else [])"

text \<open>A result of the error kind: a dictionary with the key \<^verbatim>\<open>error\<close>, or with the
  status \<^verbatim>\<open>error\<close>.\<close>

definition is_error_result :: "json \<Rightarrow> bool" where
  "is_error_result r =
     (py_in ''error'' r = Inr True \<or> py_getitem r ''status'' = Inr (JString ''error''))"

text \<open>Removing the code-fence markers as the specification words it: three backticks
  with an optional language tag, whatever the language. A tag is a run of letters
  and digits.\<close>

definition is_tag_char :: "char \<Rightarrow> bool" where
  "is_tag_char c =
     (let n = (of_char c :: nat)
      in (48 \<le> n \<and> n \<le> 57) \<or> (65 \<le> n \<and> n \<le> 90) \<or> (97 \<le> n \<and> n \<le> 122))"

function drop_fences :: "string \<Rightarrow> string" where
  "drop_fences s =
     (if prefix ''```'' s then drop_fences (dropWhile is_tag_char (drop 3 s))
      else (case s of [] \<Rightarrow> [] | c # cs \<Rightarrow> c # drop_fences cs))"
  by pat_completeness auto
termination
  by (relation "measure length")
     (auto simp: prefix_def less_Suc_eq_le intro!: le_SucI length_dropWhile_le)

declare drop_fences.simps [simp del]

definition spec_cleaned_text :: "string \<Rightarrow> string" where
  "spec_cleaned_text raw_text = drop_fences (strip raw_text)"

subsection \<open>States used in the examples\<close>

text \<open>An agent as \<^verbatim>\<open>__init__\<close> leaves it when there is no memory file.\<close>

definition fresh_agent :: state where
  "fresh_agent =
     \<lparr>user_id = ''cli_user'', pantry = Dlist.empty, liked_recipes = Dlist.empty,
      disliked_recipes = Dlist.empty, conversation = [], memory_file = Missing,
      calendar_file = None\<rparr>"

text \<open>A memory file that another user, \<^verbatim>\<open>bob\<close>, has written.\<close>

definition bob_record :: json where
  "bob_record =
     JObject [(''pantry'', JArray [JString ''rice'']), (''liked_recipes'', JArray []),
              (''disliked_recipes'', JArray [JString ''stew''])]"

definition shared_agent :: state where
  "shared_agent = fresh_agent\<lparr>memory_file := Holds (JObject [(''bob'', bob_record)])\<rparr>"

section \<open>Sets and strings\<close>

lemma elems_empty [simp]: "elems Dlist.empty = {}"
  by (simp add: elems_def)

lemma elems_insert [simp]: "elems (Dlist.insert x d) = insert x (elems d)"
  by (simp add: elems_def)

lemma elems_remove [simp]: "elems (Dlist.remove x d) = elems d - {x}"
  by (simp add: elems_def)

lemma elems_Dlist [simp]: "elems (Dlist xs) = set xs"
  by (simp add: elems_def)

lemma elems_set_update [simp]: "elems (set_update xs d) = set xs \<union> elems d"
  unfolding set_update_def by (induction xs arbitrary: d) auto

lemma insert_twice: "Dlist.insert x (Dlist.insert x d) = Dlist.insert x d"
  by (rule dlist_eqI) simp

lemma count_list_distinct: "distinct xs \<Longrightarrow> x \<in> set xs \<Longrightarrow> count_list xs x = 1"
  by (induction xs) (auto simp: count_list_0_iff)

text \<open>Lowering a character moves it by 32 or not at all, and never from or to the
  white space.\<close>

lemma lower_char_plus:
  "of_char (lower_char c) = (if lower_char c = c then of_char c else of_char c + (32::nat))"
  by (cases c) (auto simp: lower_char_def)

lemma isspace_lower_char [simp]: "isspace (lower_char c) = isspace c"
proof (cases "lower_char c = c")
  case True
  then show ?thesis by simp
next
  case False
  then have "(65 \<le> (of_char c :: nat) \<and> of_char c \<le> (90 :: nat))
      \<or> (192 \<le> (of_char c :: nat) \<and> of_char c \<le> (222 :: nat))"
    by (auto simp: lower_char_def Let_def split: if_splits)
  moreover have "of_char (lower_char c) = of_char c + (32::nat)"
    using False lower_char_plus [of c] by simp
  ultimately show ?thesis
    by (auto simp: isspace_def Let_def)
qed

lemma dropWhile_all: "list_all P xs \<Longrightarrow> dropWhile P (xs @ ys) = dropWhile P ys"
  by (induction xs) auto

lemma dropWhile_isspace_lower: "dropWhile isspace (lower s) = lower (dropWhile isspace s)"
  by (induction s) (auto simp: lower_def)

lemma lower_rev: "lower (rev s) = rev (lower s)"
  by (simp add: lower_def rev_map)

lemma strip_lower_commute: "strip (lower s) = lower (strip s)"
  by (simp add: strip_def dropWhile_isspace_lower lower_rev [symmetric])

lemma strip_padding:
  assumes "list_all isspace ws1" "list_all isspace ws2"
  shows "strip (ws1 @ s @ ws2) = strip s"
proof -
  have a: "dropWhile isspace (ws1 @ s @ ws2) = dropWhile isspace (s @ ws2)"
    using assms(1) by (simp add: dropWhile_all)
  have r: "dropWhile isspace (rev ws2 @ t) = dropWhile isspace t" for t
    using assms(2) by (simp add: dropWhile_all)
  show ?thesis
  proof (cases "list_all isspace s")
    case True
    then have e: "dropWhile isspace (s @ ws2) = []" "dropWhile isspace s = []"
      using assms(2) by (auto simp: list_all_iff)
    show ?thesis by (simp only: strip_def a e)
  next
    case False
    then obtain x where "x \<in> set s" "\<not> isspace x" by (auto simp: list_all_iff)
    then have "dropWhile isspace (s @ ws2) = dropWhile isspace s @ ws2"
      by (simp add: dropWhile_append1)
    then show ?thesis by (simp add: strip_def a r)
  qed
qed

text \<open>White space around a name and the case of its letters do not show in the
  normal form.\<close>

lemma normal_form_variant:
  assumes "list_all isspace ws1" "list_all isspace ws2" "lower y = lower x"
  shows "normal_form (ws1 @ y @ ws2) = normal_form x"
proof -
  have "normal_form (ws1 @ y @ ws2) = lower (strip y)"
    by (simp add: normal_form_def strip_padding [OF assms(1,2)])
  also have "\<dots> = strip (lower x)"
    by (simp add: strip_lower_commute [symmetric] assms(3))
  finally show ?thesis by (simp add: normal_form_def strip_lower_commute)
qed

section \<open>The memory file\<close>

lemma save_memory_fields [simp]:
  "pantry (snd (save_memory s)) = pantry s"
  "liked_recipes (snd (save_memory s)) = liked_recipes s"
  "disliked_recipes (snd (save_memory s)) = disliked_recipes s"
  "user_id (snd (save_memory s)) = user_id s"
  "conversation (snd (save_memory s)) = conversation s"
  "calendar_file (snd (save_memory s)) = calendar_file s"
  by (simp_all add: save_memory_def split: sum.splits)

lemma save_memory_dict:
  assumes "read_bank (memory_file s) = JObject kvs"
  shows "save_memory s =
           (Inr (), s\<lparr>memory_file := Holds (JObject (AList.update (user_id s) (user_record s) kvs))\<rparr>)"
  using assms by (simp add: save_memory_def)

lemma traverse_hashable_dump: "traverse hashable (map dump_key ks) = Inr ks"
proof (induction ks)
  case Nil
  then show ?case by simp
next
  case (Cons k ks)
  have "hashable (dump_key k) = Inr k" by (cases k) simp_all
  with Cons show ?case by simp
qed

lemma py_set_dump: "py_set (JArray (map dump_key (list_of_dlist d))) = Inr d"
  by (simp add: py_set_def traverse_hashable_dump)

lemma load_user_record:
  assumes "memory_file t = Holds (JObject kvs)" "map_of kvs (user_id t) = Some (user_record s)"
  shows "load_memory t =
           (Inr (), t\<lparr>pantry := pantry s, liked_recipes := liked_recipes s,
                      disliked_recipes := disliked_recipes s\<rparr>)"
  using assms by (simp add: load_memory_def user_record_def py_set_dump)

lemma stored_record_save:
  assumes "u \<noteq> user_id s"
  shows "stored_record (memory_file (snd (save_memory s))) u = stored_record (memory_file s) u"
proof (cases "memory_file s")
  case (Holds j)
  then show ?thesis using assms
    by (cases j) (simp_all add: save_memory_def read_bank_def stored_record_def update_conv')
qed (use assms in \<open>simp_all add: save_memory_def read_bank_def stored_record_def update_conv'\<close>)

text \<open>
  C5. A record that \<^verbatim>\<open>_save_memory\<close> persists and that \<^verbatim>\<open>_load_memory\<close> then reloads
  for the same user id comes back with an equal pantry, an equal set of liked
  recipes and an equal set of disliked recipes. The save starts from a
  dictionary: the content of the file, or the empty dictionary when the file is
  missing or does not parse. The reload is by any agent \<open>t\<close> of the same user that
  finds the file as the save left it.
\<close>

theorem save_load_roundtrip:
  assumes bank: "read_bank (memory_file s) = JObject kvs"
    and same: "user_id t = user_id s"
    and disk: "memory_file t = memory_file (snd (save_memory s))"
  shows "fst (save_memory s) = Inr ()
         \<and> fst (load_memory t) = Inr ()
         \<and> pantry (snd (load_memory t)) = pantry s
         \<and> liked_recipes (snd (load_memory t)) = liked_recipes s
         \<and> disliked_recipes (snd (load_memory t)) = disliked_recipes s"
proof -
  note sv = save_memory_dict [OF bank]
  have f: "memory_file t = Holds (JObject (AList.update (user_id s) (user_record s) kvs))"
    using disk by (simp add: sv)
  have m: "map_of (AList.update (user_id s) (user_record s) kvs) (user_id t) = Some (user_record s)"
    by (simp add: update_conv' same)
  show ?thesis
    by (simp add: sv load_user_record [OF f m])
qed

theorem save_load_roundtrip_witness:
  "read_bank (memory_file (shared_agent\<lparr>pantry := Dlist [KStr ''egg'']\<rparr>))
     = JObject [(''bob'', bob_record)]
   \<and> user_id fresh_agent = user_id (shared_agent\<lparr>pantry := Dlist [KStr ''egg'']\<rparr>)
   \<and> fst (load_memory (fresh_agent\<lparr>memory_file :=
         memory_file (snd (save_memory (shared_agent\<lparr>pantry := Dlist [KStr ''egg'']\<rparr>)))\<rparr>)) = Inr ()
   \<and> pantry (snd (load_memory (fresh_agent\<lparr>memory_file :=
         memory_file (snd (save_memory (shared_agent\<lparr>pantry := Dlist [KStr ''egg'']\<rparr>)))\<rparr>)))
       = Dlist [KStr ''egg'']"
proof -
  let ?s = "shared_agent\<lparr>pantry := Dlist [KStr ''egg'']\<rparr>"
  let ?t = "fresh_agent\<lparr>memory_file := memory_file (snd (save_memory ?s))\<rparr>"
  have b: "read_bank (memory_file ?s) = JObject [(''bob'', bob_record)]"
    by (simp add: shared_agent_def read_bank_def)
  have u: "user_id ?t = user_id ?s"
    by (simp add: shared_agent_def)
  have d: "memory_file ?t = memory_file (snd (save_memory ?s))"
    by simp
  show ?thesis
    using save_load_roundtrip [OF b u d] b u by simp
qed

text \<open>
  C4. When user A persists a mutation, the record that the shared memory file
  keeps for any other user B is unchanged, whether the persist comes from
  \<^verbatim>\<open>_save_memory\<close> itself, \<^verbatim>\<open>add_to_pantry\<close>, \<^verbatim>\<open>remove_from_pantry\<close> or \<^verbatim>\<open>add_feedback\<close>;
  and the save writes back the mapping it read from the disk with only A's entry
  replaced.
\<close>

theorem other_user_unchanged:
  assumes "u \<noteq> user_id s"
  shows "stored_record (memory_file (snd (save_memory s))) u = stored_record (memory_file s) u
       \<and> stored_record (memory_file (snd (add_to_pantry ingredients s))) u
           = stored_record (memory_file s) u
       \<and> stored_record (memory_file (snd (remove_from_pantry ingredients s))) u
           = stored_record (memory_file s) u
       \<and> stored_record (memory_file (snd (add_feedback recipe_name feedback s))) u
           = stored_record (memory_file s) u
       \<and> (\<forall>kvs. memory_file s = Holds (JObject kvs) \<longrightarrow>
            memory_file (snd (save_memory s))
              = Holds (JObject (AList.update (user_id s) (user_record s) kvs)))"
proof (intro conjI allI impI)
  show "stored_record (memory_file (snd (save_memory s))) u = stored_record (memory_file s) u"
    by (rule stored_record_save [OF assms])
  show "stored_record (memory_file (snd (add_to_pantry ingredients s))) u
          = stored_record (memory_file s) u"
    using assms stored_record_save [of u "s\<lparr>pantry := p\<rparr>" for p]
    by (auto simp: add_to_pantry_def split: sum.splits)
  show "stored_record (memory_file (snd (remove_from_pantry ingredients s))) u
          = stored_record (memory_file s) u"
    using assms stored_record_save [of u "s\<lparr>pantry := p\<rparr>" for p]
    by (auto simp: remove_from_pantry_def split: sum.splits prod.splits)
  show "stored_record (memory_file (snd (add_feedback recipe_name feedback s))) u
          = stored_record (memory_file s) u"
    using assms stored_record_save [of u s]
      stored_record_save [of u "s\<lparr>liked_recipes := l, disliked_recipes := d\<rparr>" for l d]
      stored_record_save [of u "s\<lparr>disliked_recipes := d, liked_recipes := l\<rparr>" for l d]
    by (auto simp: add_feedback_def split: sum.splits)
next
  fix kvs assume "memory_file s = Holds (JObject kvs)"
  then show "memory_file (snd (save_memory s))
              = Holds (JObject (AList.update (user_id s) (user_record s) kvs))"
    by (simp add: save_memory_def read_bank_def)
qed

theorem other_user_unchanged_witness:
  "''bob'' \<noteq> user_id shared_agent
   \<and> memory_file shared_agent = Holds (JObject [(''bob'', bob_record)])
   \<and> stored_record (memory_file (snd (add_to_pantry (JArray [JString ''Egg'']) shared_agent))) ''bob''
       = Some bob_record
   \<and> memory_file (snd (save_memory shared_agent))
       = Holds (JObject [(''bob'', bob_record), (''cli_user'', user_record shared_agent)])"
proof -
  have n: "''bob'' \<noteq> user_id shared_agent"
    by (simp add: shared_agent_def fresh_agent_def)
  have m: "memory_file shared_agent = Holds (JObject [(''bob'', bob_record)])"
    by (simp add: shared_agent_def)
  have r: "stored_record (memory_file shared_agent) ''bob'' = Some bob_record"
    by (simp add: m stored_record_def)
  have u: "user_id shared_agent = ''cli_user''"
    by (simp add: shared_agent_def fresh_agent_def)
  show ?thesis
    using other_user_unchanged [OF n, of "JArray [JString ''Egg'']"] n m r u by simp
qed

text \<open>A missing file and a file that does not parse leave the agent with three
  empty sets.\<close>

lemma init_missing_or_corrupt:
  assumes "mem = Missing \<or> mem = Unparseable" "k \<noteq> []"
  shows "init (Some k) uid replies mem cal =
     Inr \<lparr>user_id = uid, pantry = Dlist.empty, liked_recipes = Dlist.empty,
          disliked_recipes = Dlist.empty, conversation = replies,
          memory_file = mem, calendar_file = cal\<rparr>"
  using assms by (auto simp: init_def load_memory_def)

text \<open>
  C6. Loading at the construction of the agent is claimed never to raise, whatever
  the memory file contains. A file that holds the JSON text \<^verbatim>\<open>[]\<close> parses, into a
  list; \<^verbatim>\<open>full_memory_bank.get\<close> then raises AttributeError, which the handler for
  JSONDecodeError does not catch, and the construction fails.
\<close>

theorem init_raises_on_list:
  "init (Some ''key'') ''cli_user'' [] (Holds (JArray [])) None = Inl AttributeError"
  by (simp add: init_def load_memory_def)

section \<open>The pantry and the feedback\<close>

lemma add_feedback_disjoint:
  assumes "elems (liked_recipes s) \<inter> elems (disliked_recipes s) = {}"
  shows "elems (liked_recipes (snd (add_feedback r f s)))
           \<inter> elems (disliked_recipes (snd (add_feedback r f s))) = {}"
  using assms by (auto simp: add_feedback_def split: sum.splits)

text \<open>
  C3. From a state whose liked and disliked recipes are disjoint, every sequence of
  calls of \<^verbatim>\<open>add_feedback\<close> leaves them disjoint.
\<close>

theorem add_feedbacks_disjoint:
  assumes "elems (liked_recipes s) \<inter> elems (disliked_recipes s) = {}"
  shows "elems (liked_recipes (add_feedbacks cs s))
           \<inter> elems (disliked_recipes (add_feedbacks cs s)) = {}"
  using assms
proof (induction cs arbitrary: s)
  case Nil
  then show ?case by simp
next
  case (Cons c cs)
  show ?case
    using Cons.IH [OF add_feedback_disjoint [OF Cons.prems]] by simp
qed

theorem add_feedbacks_disjoint_witness:
  "elems (liked_recipes (fresh_agent\<lparr>liked_recipes := Dlist [KStr ''soup'']\<rparr>))
     \<inter> elems (disliked_recipes (fresh_agent\<lparr>liked_recipes := Dlist [KStr ''soup'']\<rparr>)) = {}
   \<and> elems (liked_recipes
        (add_feedbacks [(JString ''Soup '', JString ''Dislike''), (JString ''Pie'', JString ''like'')]
          (fresh_agent\<lparr>liked_recipes := Dlist [KStr ''soup'']\<rparr>)))
     \<inter> elems (disliked_recipes
        (add_feedbacks [(JString ''Soup '', JString ''Dislike''), (JString ''Pie'', JString ''like'')]
          (fresh_agent\<lparr>liked_recipes := Dlist [KStr ''soup'']\<rparr>))) = {}"
  (is "?h \<and> ?c")
proof
  show h: ?h
    by (simp add: fresh_agent_def)
  show ?c
    by (rule add_feedbacks_disjoint [OF h])
qed

text \<open>Liking a recipe puts its normal form among the liked and takes it from the
  disliked; disliking does the reverse.\<close>

lemma add_feedback_moves:
  "lower f = ''like'' \<Longrightarrow>
     KStr (normal_form r) \<in> elems (liked_recipes (snd (add_feedback (JString r) (JString f) s)))
     \<and> KStr (normal_form r) \<notin> elems (disliked_recipes (snd (add_feedback (JString r) (JString f) s)))"
  "lower f = ''dislike'' \<Longrightarrow>
     KStr (normal_form r) \<in> elems (disliked_recipes (snd (add_feedback (JString r) (JString f) s)))
     \<and> KStr (normal_form r) \<notin> elems (liked_recipes (snd (add_feedback (JString r) (JString f) s)))"
  by (simp_all add: add_feedback_def)

lemma add_to_pantry_one:
  "add_to_pantry (JArray [JString x]) s
     = save_memory (s\<lparr>pantry := Dlist.insert (KStr (normal_form x)) (pantry s)\<rparr>)"
  by (simp add: add_to_pantry_def set_update_def)

text \<open>
  C8. Adding an ingredient and then adding it again, in another casing and with
  white space around it, leaves the pantry with exactly one entry for it, its
  trimmed lowercase normal form; the second call changes nothing.
\<close>

theorem add_to_pantry_twice:
  fixes s :: state
  assumes "list_all isspace ws1" "list_all isspace ws2" "lower y = lower x"
  defines "s1 \<equiv> snd (add_to_pantry (JArray [JString x]) s)"
  defines "s2 \<equiv> snd (add_to_pantry (JArray [JString (ws1 @ y @ ws2)]) s1)"
  shows "count_list (list_of_dlist (pantry s2)) (KStr (normal_form x)) = 1
         \<and> elems (pantry s2) = insert (KStr (normal_form x)) (elems (pantry s))
         \<and> pantry s2 = pantry s1"
proof -
  have n: "normal_form (ws1 @ y @ ws2) = normal_form x"
    by (rule normal_form_variant [OF assms(1-3)])
  have p1: "pantry s1 = Dlist.insert (KStr (normal_form x)) (pantry s)"
    by (simp add: s1_def add_to_pantry_one)
  have p2: "pantry s2 = pantry s1"
    by (simp add: s2_def add_to_pantry_one n p1 insert_twice)
  have "count_list (list_of_dlist (pantry s1)) (KStr (normal_form x)) = 1"
    by (rule count_list_distinct) (simp_all add: p1)
  then show ?thesis using p1 p2 by simp
qed

theorem add_to_pantry_twice_witness:
  "list_all isspace '' '' \<and> list_all isspace [CHR 0x0A] \<and> lower ''EGG'' = lower ''Egg''
   \<and> count_list
        (list_of_dlist (pantry (snd (add_to_pantry (JArray [JString ('' '' @ ''EGG'' @ [CHR 0x0A])])
           (snd (add_to_pantry (JArray [JString ''Egg'']) fresh_agent))))))
        (KStr ''egg'') = 1"
proof -
  have ws: "list_all isspace '' ''" "list_all isspace [CHR 0x0A]"
    by (simp_all add: isspace_def)
  have lo: "lower ''EGG'' = lower ''Egg''"
    by (simp add: lower_def lower_char_def)
  have n: "normal_form ''Egg'' = ''egg''"
    by (simp add: normal_form_def strip_def lower_def lower_char_def isspace_def)
  note t = add_to_pantry_twice [OF ws lo, of fresh_agent, unfolded n]
  show ?thesis
    using ws lo t by blast
qed

end
